theory Spec2Isabelle
  imports Main "HOL-Library.Word"
begin

unbundle bit_operations_syntax

section \<open>Machine integers\<close>

text \<open>
  Go's \<open>uint64\<close> and \<open>int64\<close> are both 64-bit words; arithmetic wraps around. The signed
  reading of a word is \<open>sint\<close>, the unsigned one \<open>unat\<close>. \<open>byte\<close> is an 8-bit word and
  a \<open>[]byte\<close> a list of them.
\<close>

type_synonym u64 = "64 word"
type_synonym i64 = "64 word"
type_synonym byte = "8 word"
type_synonym bytes = "byte list"

definition MaxInt64 :: i64 where
  "MaxInt64 = 0x7FFFFFFFFFFFFFFF"

definition MinInt64 :: i64 where
  "MinInt64 = 0x8000000000000000"

definition MaxUint64 :: u64 where
  "MaxUint64 = 0xFFFFFFFFFFFFFFFF"

section \<open>util/arbmath/math.go\<close>

text \<open>
  \<open>bits.Len64\<close> of the Go standard library: the least number of bits that represent
  the value, 0 for 0. \<open>bits.LeadingZeros64 x\<close> is \<open>64 - Len64 x\<close>.
\<close>

fun Len_nat :: "nat \<Rightarrow> nat" where
  "Len_nat n = (if n = 0 then 0 else Suc (Len_nat (n div 2)))"

declare Len_nat.simps [simp del]

definition Len64 :: "u64 \<Rightarrow> nat" where
  "Len64 x = Len_nat (unat x)"

definition LeadingZeros64 :: "u64 \<Rightarrow> nat" where
  "LeadingZeros64 x = 64 - Len64 x"

text \<open>\<open>func Log2ceil(value uint64) uint64 { return uint64(64 - bits.LeadingZeros64(value)) }\<close>\<close>

definition Log2ceil :: "u64 \<Rightarrow> u64" where
  "Log2ceil v = of_nat (64 - LeadingZeros64 v)"

text \<open>
  \<open>func NextPowerOf2(value uint64) uint64 { return 1 << Log2ceil(value) }\<close>.
  Go shifts a \<open>uint64\<close> by an unsigned count; a count of 64 or more gives 0, as
  \<open>push_bit\<close> on a 64-bit word does.
\<close>

definition NextPowerOf2 :: "u64 \<Rightarrow> u64" where
  "NextPowerOf2 v = push_bit (unat (Log2ceil v)) 1"

text \<open>\<open>SaturatingAdd\<close>: the wrapped sum, then the two sign tests in the order of the source.\<close>

definition SaturatingAdd :: "i64 \<Rightarrow> i64 \<Rightarrow> i64" where
  "SaturatingAdd augend addend =
     (let sum = augend + addend;
          sum = (if 0 < sint addend \<and> sint sum < sint augend then MaxInt64 else sum);
          sum = (if sint addend < 0 \<and> sint sum > sint augend then MinInt64 else sum)
      in sum)"

definition SaturatingUAdd :: "u64 \<Rightarrow> u64 \<Rightarrow> u64" where
  "SaturatingUAdd augend addend =
     (let sum = augend + addend
      in if sum < augend \<or> sum < addend then MaxUint64 else sum)"

text \<open>
  \<open>SaturatingSub(minuend, subtrahend) = SaturatingAdd(minuend, -subtrahend)\<close>: the unary
  minus is Go's wrapping negation of an \<open>int64\<close>.
\<close>

definition SaturatingSub :: "i64 \<Rightarrow> i64 \<Rightarrow> i64" where
  "SaturatingSub minuend subtrahend = SaturatingAdd minuend (- subtrahend)"

definition SaturatingUSub :: "u64 \<Rightarrow> u64 \<Rightarrow> u64" where
  "SaturatingUSub minuend subtrahend =
     (if subtrahend \<ge> minuend then 0 else minuend - subtrahend)"

definition SaturatingUMul :: "u64 \<Rightarrow> u64 \<Rightarrow> u64" where
  "SaturatingUMul multiplicand multiplier =
     (let product = multiplicand * multiplier
      in if multiplier \<noteq> 0 \<and> product div multiplier \<noteq> multiplicand then MaxUint64
         else product)"

text \<open>
  \<open>ApproxSquareRoot\<close>. The first loop halves the approximation while half of its
  saturated square exceeds the value; the second loop runs exactly four times.
  The divisions \<open>value/approx\<close> would panic in Go for \<open>approx = 0\<close>; HOL's division by
  zero is 0 there.
\<close>

function halve :: "u64 \<Rightarrow> u64 \<Rightarrow> u64" where
  "halve v approx =
     (if SaturatingUMul approx approx div 2 > v then halve v (approx div 2) else approx)"
  by pat_completeness auto
termination
proof (relation "measure (\<lambda>(v, approx). unat approx)")
  show "wf (measure (\<lambda>(v, approx). unat approx))"
    by simp
next
  fix v approx :: u64
  assume h: "v < SaturatingUMul approx approx div 2"
  have "approx \<noteq> 0"
  proof
    assume "approx = 0"
    with h show False by (simp add: SaturatingUMul_def)
  qed
  then have "unat approx \<noteq> 0"
    by (simp add: unat_eq_0)
  then have "unat approx div 2 < unat approx"
    by simp
  then show "((v, approx div 2), (v, approx)) \<in> measure (\<lambda>(v, approx). unat approx)"
    by (simp add: unat_div)
qed

declare halve.simps [simp del]

definition newton_step :: "u64 \<Rightarrow> u64 \<Rightarrow> u64" where
  "newton_step v approx =
     (if approx > v div approx
      then (let diff = approx - v div approx in SaturatingUAdd (v div approx) (diff div 2))
      else (let diff = v div approx - approx in SaturatingUAdd approx (diff div 2)))"

definition ApproxSquareRoot :: "u64 \<Rightarrow> u64" where
  "ApproxSquareRoot v =
     (if v = 0 then 0
      else newton_step v (newton_step v (newton_step v (newton_step v (halve v v)))))"

text \<open>
  The error bound of the specification, over the integers: the square of the result
  differs from the value by at most twice the result plus one.
\<close>

definition sqrtErrorBound :: "u64 \<Rightarrow> u64 \<Rightarrow> bool" where
  "sqrtErrorBound v a =
     (\<bar>int (unat a) * int (unat a) - int (unat v)\<bar> \<le> 2 * int (unat a) + 1)"

section \<open>Byte-level helpers of the standard library\<close>

text \<open>
  \<open>binary.BigEndian.Uint64\<close> and \<open>binary.BigEndian.PutUint64\<close>: the value of a byte string
  read most significant byte first, and the fixed-width big-endian bytes of a number.
\<close>

definition be_nat :: "bytes \<Rightarrow> nat" where
  "be_nat bs = foldl (\<lambda>acc b. acc * 256 + unat b) 0 bs"

fun nat_to_be :: "nat \<Rightarrow> nat \<Rightarrow> bytes" where
  "nat_to_be 0 n = []"
| "nat_to_be (Suc k) n = nat_to_be k (n div 256) @ [of_nat (n mod 256)]"

definition Uint64 :: "bytes \<Rightarrow> u64" where
  "Uint64 bs = of_nat (be_nat bs)"

definition PutUint64 :: "u64 \<Rightarrow> bytes" where
  "PutUint64 v = nat_to_be 8 (unat v)"

text \<open>\<open>data[i:j]\<close> of a slice, for \<open>i \<le> j \<le> len(data)\<close>.\<close>

definition slice :: "'a list \<Rightarrow> nat \<Rightarrow> nat \<Rightarrow> 'a list" where
  "slice xs i j = take (j - i) (drop i xs)"

text \<open>
  The builtin \<open>copy(dst, src)\<close> overwrites the first \<open>min(len(dst), len(src))\<close> elements
  of \<open>dst\<close>; \<open>put_at\<close> is \<open>copy(dst[off:], src)\<close>.
\<close>

definition copy_bytes :: "bytes \<Rightarrow> bytes \<Rightarrow> bytes" where
  "copy_bytes dst src = take (length dst) src @ drop (length src) dst"

definition put_at :: "nat \<Rightarrow> bytes \<Rightarrow> bytes \<Rightarrow> bytes" where
  "put_at off src dst = take off dst @ copy_bytes (drop off dst) src"

text \<open>
  \<open>math.U256Bytes\<close> of go-ethereum on a value below \<open>2 ^ 64\<close>: its 32 big-endian bytes.
  \<open>common.Hash{}\<close> is 32 zero bytes.
\<close>

definition U256Bytes :: "u64 \<Rightarrow> bytes" where
  "U256Bytes v = nat_to_be 32 (unat v)"

definition zeroHash :: bytes where
  "zeroHash = replicate 32 0"

section \<open>RLP, as the \<open>rlp\<close> package of go-ethereum reads and writes it\<close>

text \<open>
  The package is a dependency of the repository, not part of it. The model follows its
  wire format and its \<open>Stream\<close> decoder: a byte below \<open>0x80\<close> is its own encoding; \<open>0x80 + n\<close>
  starts a string of \<open>n < 56\<close> bytes; \<open>0xB7 + k\<close> is followed by the \<open>k\<close>-byte big-endian
  length of a longer string; \<open>0xC0 + n\<close> and \<open>0xF7 + k\<close> do the same for lists. The decoder
  rejects non-canonical sizes and integers, and values larger than its input limit.
\<close>

datatype rlp_error =
  EOF | ErrUnexpectedEOF | ErrCanonInt | ErrCanonSize | ErrExpectedString | ErrExpectedList
  | ErrUintOverflow | ErrValueTooLarge | ErrElemTooLarge

datatype rlp_kind = KByte byte | KString | KList

text \<open>\<open>Stream.readUint\<close>: a big-endian number of \<open>n\<close> bytes, without a leading zero byte.\<close>

definition readUint :: "nat \<Rightarrow> bytes \<Rightarrow> rlp_error + (nat \<times> bytes)" where
  "readUint n bs =
     (if n = 0 then Inr (0, bs)
      else if n = 1 then (case bs of [] \<Rightarrow> Inl ErrUnexpectedEOF | b # r \<Rightarrow> Inr (unat b, r))
      else if length bs < n then Inl ErrUnexpectedEOF
      else if hd bs = 0 then Inl ErrCanonSize
      else Inr (be_nat (take n bs), drop n bs))"

text \<open>\<open>Stream.readKind\<close>: the kind and payload size announced by the next tag.\<close>

definition readKind :: "bytes \<Rightarrow> rlp_error + (rlp_kind \<times> nat \<times> bytes)" where
  "readKind bs =
     (case bs of
        [] \<Rightarrow> Inl EOF
      | b # rest \<Rightarrow>
          if b < 0x80 then Inr (KByte b, 0, rest)
          else if b < 0xB8 then Inr (KString, unat b - 0x80, rest)
          else if b < 0xC0 then
            (case readUint (unat b - 0xB7) rest of
               Inl e \<Rightarrow> Inl e
             | Inr (n, rest') \<Rightarrow> if n < 56 then Inl ErrCanonSize else Inr (KString, n, rest'))
          else if b < 0xF8 then Inr (KList, unat b - 0xC0, rest)
          else
            (case readUint (unat b - 0xF7) rest of
               Inl e \<Rightarrow> Inl e
             | Inr (n, rest') \<Rightarrow> if n < 56 then Inl ErrCanonSize else Inr (KList, n, rest')))"

text \<open>
  \<open>Stream.Kind\<close> at the top level of a stream with input limit \<open>limit\<close>: the tag bytes
  count against the limit, and the announced size must fit in what remains of it.
\<close>

definition Kind_toplevel :: "nat \<Rightarrow> bytes \<Rightarrow> rlp_error + (rlp_kind \<times> nat \<times> bytes)" where
  "Kind_toplevel limit bs =
     (if limit = 0 then Inl EOF
      else case readKind bs of
        Inl e \<Rightarrow> Inl e
      | Inr (k, n, rest) \<Rightarrow>
          if limit < length bs - length rest then Inl ErrValueTooLarge
          else if limit - (length bs - length rest) < n then Inl ErrValueTooLarge
          else Inr (k, n, rest))"

text \<open>\<open>rlp.NewStream(rd, 16).Uint()\<close> on a reader over \<open>bs\<close>.\<close>

definition rlp_uint :: "bytes \<Rightarrow> rlp_error + u64" where
  "rlp_uint bs =
     (case Kind_toplevel 16 bs of
        Inl e \<Rightarrow> Inl e
      | Inr (k, n, rest) \<Rightarrow>
          (case k of
             KByte b \<Rightarrow> if b = 0 then Inl ErrCanonInt else Inr (ucast b)
           | KString \<Rightarrow>
               if 8 < n then Inl ErrUintOverflow
               else (case readUint n rest of
                       Inl e \<Rightarrow> Inl (if e = ErrCanonSize then ErrCanonInt else e)
                     | Inr (v, rest') \<Rightarrow>
                         if 0 < n \<and> v < 128 then Inl ErrCanonSize else Inr (of_nat v))
           | KList \<Rightarrow> Inl ErrExpectedString))"

text \<open>\<open>Stream.Bytes\<close> for one element inside a list whose remaining payload is \<open>bs\<close>.\<close>

definition decode_bytes :: "bytes \<Rightarrow> rlp_error + (bytes \<times> bytes)" where
  "decode_bytes bs =
     (case readKind bs of
        Inl e \<Rightarrow> Inl e
      | Inr (k, n, rest) \<Rightarrow>
          (case k of
             KByte b \<Rightarrow> Inr ([b], rest)
           | KString \<Rightarrow>
               if length rest < n then Inl ErrElemTooLarge
               else if n = 1 \<and> hd rest < 0x80 then Inl ErrCanonSize
               else Inr (take n rest, drop n rest)
           | KList \<Rightarrow> Inl ErrExpectedString))"

lemma readUint_shorter: "readUint n bs = Inr (v, rest) \<Longrightarrow> length rest \<le> length bs"
  by (auto simp: readUint_def split: if_splits list.splits)

lemma readKind_shorter: "readKind bs = Inr (k, n, rest) \<Longrightarrow> length rest < length bs"
  by (auto simp: readKind_def split: if_splits list.splits sum.splits dest: readUint_shorter)

lemma decode_bytes_shorter:
  assumes "decode_bytes bs = Inr (s, rest)"
  shows "length rest < length bs"
proof (cases "readKind bs")
  case (Inl e)
  with assms show ?thesis by (simp add: decode_bytes_def)
next
  case (Inr t)
  obtain k n r where t: "t = (k, n, r)" by (cases t)
  with Inr have "length r < length bs" by (auto dest: readKind_shorter)
  moreover from assms Inr t have "length rest \<le> length r"
    by (cases k) (auto simp: decode_bytes_def split: if_splits)
  ultimately show ?thesis by simp
qed

text \<open>The loop of the list decoder: elements are read until the list's payload is used up.\<close>

function decode_items :: "bytes \<Rightarrow> rlp_error + bytes list" where
  "decode_items bs =
     (if bs = [] then Inr []
      else case decode_bytes bs of
        Inl e \<Rightarrow> Inl e
      | Inr (s, rest) \<Rightarrow>
          (case decode_items rest of Inl e \<Rightarrow> Inl e | Inr ss \<Rightarrow> Inr (s # ss)))"
  by pat_completeness auto
termination
  by (relation "measure length") (auto dest: decode_bytes_shorter)

declare decode_items.simps [simp del]

text \<open>
  \<open>rlp.NewStream(reader, limit).Decode(&segments)\<close> for \<open>segments [][]byte\<close>, on a reader
  that delivers \<open>bs\<close> and then ends: the value must be a list that fits in the limit and
  in the input, and each of its elements a byte string.
\<close>

definition rlp_decode_segments :: "nat \<Rightarrow> bytes \<Rightarrow> rlp_error + bytes list" where
  "rlp_decode_segments limit bs =
     (case Kind_toplevel limit bs of
        Inl e \<Rightarrow> Inl e
      | Inr (k, n, rest) \<Rightarrow>
          (case k of
             KList \<Rightarrow> if length rest < n then Inl ErrUnexpectedEOF else decode_items (take n rest)
           | KByte b \<Rightarrow> Inl ErrExpectedList
           | KString \<Rightarrow> Inl ErrExpectedList))"

text \<open>The encoder: the shortest big-endian bytes of a length, then the two kinds of header.\<close>

fun be_min :: "nat \<Rightarrow> bytes" where
  "be_min n = (if n = 0 then [] else be_min (n div 256) @ [of_nat (n mod 256)])"

declare be_min.simps [simp del]

definition rlp_encode_bytes :: "bytes \<Rightarrow> bytes" where
  "rlp_encode_bytes s =
     (if length s = 1 \<and> hd s < 0x80 then s
      else if length s < 56 then of_nat (0x80 + length s) # s
      else of_nat (0xB7 + length (be_min (length s))) # be_min (length s) @ s)"

definition rlp_list_header :: "nat \<Rightarrow> bytes" where
  "rlp_list_header n =
     (if n < 56 then [of_nat (0xC0 + n)]
      else of_nat (0xF7 + length (be_min n)) # be_min n)"

definition rlp_encode_segments :: "bytes list \<Rightarrow> bytes" where
  "rlp_encode_segments segs =
     (let payload = concat (map rlp_encode_bytes segs)
      in rlp_list_header (length payload) @ payload)"

section \<open>arbstate/inbox.go\<close>

subsection \<open>What the file uses from outside\<close>

text \<open>
  \<open>L1IncomingMessage\<close> and its header belong to package \<open>arbos\<close>; an address is 20 bytes
  and a \<open>common.Hash\<close> 32 bytes.
\<close>

record L1IncomingMessageHeader =
  Kind :: byte
  Sender :: bytes
  BlockNumber :: bytes
  Timestamp :: bytes
  RequestId :: bytes
  GasPriceL1 :: bytes

record L1IncomingMessage =
  Header :: L1IncomingMessageHeader
  L2msg :: bytes

text \<open>
  The errors \<open>Peek\<close> returns, named as the specification names them: \<open>EndOfSequencerMessage\<close>
  is "reading end of sequencer message (size n)", \<open>EmptySegment\<close> "empty sequencer message
  segment", \<open>BadDelayedCount\<close> "bad delayed message reading count", \<open>UnknownSegmentKind\<close>
  "bad sequencer message segment kind k". \<open>RlpError\<close> passes on an error of the RLP
  decoder and \<open>L1ParseError\<close> one of \<open>arbos.ParseIncomingL1Message\<close>.
\<close>

datatype error =
  EndOfSequencerMessage nat | EmptySegment | BadDelayedCount | UnknownSegmentKind byte
  | RlpError rlp_error | L1ParseError

datatype panic =
  MissingL1Header | FailedToGetAdvanceAction | AdvanceTargetNotAhead | UnknownAdvanceAction

text \<open>
  The parts whose code is not in these files are parameters of the model:
  \<^item> \<open>brotliWriter\<close>: what \<open>brotli.NewWriter(buf)\<close> has written to \<open>buf\<close> after \<open>Write\<close> and
    \<open>Flush\<close> (the deferred \<open>Close\<close> runs after the result of \<open>Encode\<close> has been computed);
  \<open>brotliReader\<close>: the bytes \<open>brotli.NewReader\<close> delivers before it ends or fails;
  \<^item> \<open>ParseIncomingL1Message\<close> of package \<open>arbos\<close>, which returns a message pointer (possibly
    nil) and an error (possibly nil);
  \<^item> the constants \<open>arbos.L2MessageKind_SignedTx\<close> and \<open>arbos.L1MessageType_L2Message\<close>.
\<close>

record externals =
  brotliWriter :: "bytes \<Rightarrow> bytes"
  brotliReader :: "bytes \<Rightarrow> bytes"
  ParseIncomingL1Message :: "bytes \<Rightarrow> L1IncomingMessage option \<times> error option"
  L2MessageKind_SignedTx :: byte
  L1MessageType_L2Message :: byte

text \<open>
  Modelled from the spec: \<open>InboxBackend\<close> is an interface; its implementations are not in
  these files. The model is the cursor the specification describes: the batch bytes of
  every sequencer-inbox position, the current position, the position within the current
  batch (reset to zero when the cursor advances), and the delayed inbox by sequence number.
\<close>

record InboxBackend =
  sequencerInbox :: "u64 \<Rightarrow> bytes"
  sequencerInboxPosition :: u64
  positionWithinMessage :: u64
  delayedInbox :: "u64 \<Rightarrow> bytes"

definition PeekSequencerInbox :: "InboxBackend \<Rightarrow> bytes" where
  "PeekSequencerInbox b = sequencerInbox b (sequencerInboxPosition b)"

definition GetSequencerInboxPosition :: "InboxBackend \<Rightarrow> u64" where
  "GetSequencerInboxPosition b = sequencerInboxPosition b"

definition AdvanceSequencerInbox :: "InboxBackend \<Rightarrow> InboxBackend" where
  "AdvanceSequencerInbox b =
     b\<lparr>sequencerInboxPosition := sequencerInboxPosition b + 1, positionWithinMessage := 0\<rparr>"

definition GetPositionWithinMessage :: "InboxBackend \<Rightarrow> u64" where
  "GetPositionWithinMessage b = positionWithinMessage b"

definition SetPositionWithinMessage :: "InboxBackend \<Rightarrow> u64 \<Rightarrow> InboxBackend" where
  "SetPositionWithinMessage b pos = b\<lparr>positionWithinMessage := pos\<rparr>"

definition ReadDelayedInbox :: "InboxBackend \<Rightarrow> u64 \<Rightarrow> bytes" where
  "ReadDelayedInbox b seqNum = delayedInbox b seqNum"

subsection \<open>The batch codec\<close>

record MessageWithMetadata =
  Message :: "L1IncomingMessage option"
  MustEndBlock :: bool
  DelayedMessagesRead :: u64

record sequencerMessage =
  minTimestamp :: u64
  maxTimestamp :: u64
  minL1Block :: u64
  maxL1Block :: u64
  afterDelayedMessages :: u64
  segments :: "bytes list"

definition maxDecompressedLen :: nat where
  "maxDecompressedLen = 1024 * 1024 * 16"

text \<open>
  \<open>parseSequencerMessage\<close>. The RLP stream reads from the Brotli reader through
  \<open>io.LimitReader\<close>, which ends the input after \<open>maxDecompressedLen\<close> bytes. On any decoding
  error the segments are set to nil, the empty slice.
\<close>

definition parseSequencerMessage :: "externals \<Rightarrow> bytes \<Rightarrow> panic + sequencerMessage" where
  "parseSequencerMessage x data =
     (if length data < 40 then Inl MissingL1Header
      else
        let reader = take maxDecompressedLen (brotliReader x (drop 40 data))
        in Inr \<lparr>minTimestamp = Uint64 (slice data 0 8),
                maxTimestamp = Uint64 (slice data 8 16),
                minL1Block = Uint64 (slice data 16 24),
                maxL1Block = Uint64 (slice data 24 32),
                afterDelayedMessages = Uint64 (slice data 32 40),
                segments = (case rlp_decode_segments maxDecompressedLen reader of
                              Inl err \<Rightarrow> []
                            | Inr segs \<Rightarrow> segs)\<rparr>)"

text \<open>
  \<open>Encode\<close>: the five header fields, then the Brotli writer's output for the RLP encoding
  of the segments. Neither panic of the source can happen: encoding a \<open>[][]byte\<close> and
  writing to a \<open>bytes.Buffer\<close> do not fail.
\<close>

definition Encode :: "externals \<Rightarrow> sequencerMessage \<Rightarrow> bytes" where
  "Encode x m =
     (PutUint64 (minTimestamp m) @ PutUint64 (maxTimestamp m) @ PutUint64 (minL1Block m)
        @ PutUint64 (maxL1Block m) @ PutUint64 (afterDelayedMessages m))
     @ brotliWriter x (rlp_encode_segments (segments m))"

subsection \<open>The multiplexer\<close>

datatype AdvanceAction = AdvanceUnknown | AdvanceDelayedMessage | AdvanceSegment | AdvanceMessage

record inboxMultiplexer =
  backend :: InboxBackend
  delayedMessagesRead :: u64
  advanceAction :: AdvanceAction
  advanceSegmentTo :: u64
  sequencerMessageCache :: "sequencerMessage option"
  sequencerMessageCachePosition :: u64

definition NewInboxMultiplexer :: "InboxBackend \<Rightarrow> u64 \<Rightarrow> inboxMultiplexer" where
  "NewInboxMultiplexer b dmr =
     \<lparr>backend = b, delayedMessagesRead = dmr, advanceAction = AdvanceUnknown,
      advanceSegmentTo = 0, sequencerMessageCache = None, sequencerMessageCachePosition = 0\<rparr>"

definition SequencerAddress :: bytes where
  "SequencerAddress =
     [0xA4, 0xB0, 0, 0, 0, 0, 0, 0, 0, 0, 0, 0x73, 0x65, 0x71, 0x75, 0x65, 0x6E, 0x63, 0x65, 0x72]"

definition segmentKindL2Message :: byte where
  "segmentKindL2Message = 0"

definition segmentKindDelayedMessages :: byte where
  "segmentKindDelayedMessages = 1"

definition segmentKindAdvanceTimestamp :: byte where
  "segmentKindAdvanceTimestamp = 2"

definition segmentKindAdvanceL1BlockNumber :: byte where
  "segmentKindAdvanceL1BlockNumber = 3"

text \<open>\<open>uint64(len(xs))\<close>\<close>

definition len64 :: "'a list \<Rightarrow> u64" where
  "len64 xs = of_nat (length xs)"

text \<open>
  Lines 142-150 of \<open>Peek\<close>: the cached batch when the cache is for the backend's position,
  else the batch parsed from the backend and stored in the cache.
\<close>

definition loadSequencerMessage ::
  "externals \<Rightarrow> inboxMultiplexer \<Rightarrow> panic + (sequencerMessage \<times> inboxMultiplexer)" where
  "loadSequencerMessage x r =
     (let seqMsgPosition = GetSequencerInboxPosition (backend r)
      in case sequencerMessageCache r of
           Some cached \<Rightarrow>
             if sequencerMessageCachePosition r = seqMsgPosition then Inr (cached, r)
             else (case parseSequencerMessage x (PeekSequencerInbox (backend r)) of
                     Inl p \<Rightarrow> Inl p
                   | Inr seqMsg \<Rightarrow>
                       Inr (seqMsg, r\<lparr>sequencerMessageCache := Some seqMsg,
                                      sequencerMessageCachePosition := seqMsgPosition\<rparr>))
         | None \<Rightarrow>
             (case parseSequencerMessage x (PeekSequencerInbox (backend r)) of
                Inl p \<Rightarrow> Inl p
              | Inr seqMsg \<Rightarrow>
                  Inr (seqMsg, r\<lparr>sequencerMessageCache := Some seqMsg,
                                 sequencerMessageCachePosition := seqMsgPosition\<rparr>)))"

text \<open>
  Lines 154-180: the loop over the leading segments, on the loop's variables
  \<open>segmentNum\<close>, \<open>timestamp\<close> and \<open>blockNumber\<close>. An empty segment is stepped over. A timing
  segment whose number decodes adds to its counter and is stepped over; when the number
  does not decode, the source logs and executes \<open>continue\<close> with \<open>segmentNum\<close> unchanged.
  The function is partial: \<open>None\<close> is a loop that does not end.
\<close>

partial_function (option) skipTimingSegments ::
  "bytes list \<Rightarrow> u64 \<Rightarrow> u64 \<Rightarrow> u64 \<Rightarrow> (u64 \<times> u64 \<times> u64) option" where
  "skipTimingSegments segs segmentNum timestamp blockNumber =
     (if segmentNum \<ge> len64 segs then Some (segmentNum, timestamp, blockNumber)
      else if length (segs ! unat segmentNum) = 0
      then skipTimingSegments segs (segmentNum + 1) timestamp blockNumber
      else if hd (segs ! unat segmentNum) = segmentKindAdvanceTimestamp
              \<or> hd (segs ! unat segmentNum) = segmentKindAdvanceL1BlockNumber
      then (case rlp_uint (tl (segs ! unat segmentNum)) of
              Inl err \<Rightarrow> skipTimingSegments segs segmentNum timestamp blockNumber
            | Inr advancing \<Rightarrow>
                if hd (segs ! unat segmentNum) = segmentKindAdvanceTimestamp
                then skipTimingSegments segs (segmentNum + 1) (timestamp + advancing) blockNumber
                else skipTimingSegments segs (segmentNum + 1) timestamp (blockNumber + advancing))
      else Some (segmentNum, timestamp, blockNumber))"

text \<open>Lines 181-190: the clamp of a counter to the bounds of the batch.\<close>

definition clampTo :: "u64 \<Rightarrow> u64 \<Rightarrow> u64 \<Rightarrow> u64" where
  "clampTo v lo hi = (if v < lo then lo else if v > hi then hi else v)"

text \<open>
  Lines 224-250: the message synthesized for an L2 segment. Both \<open>copy\<close> calls of the
  source write to \<open>blockNumberHash\<close>; \<open>timestampHash\<close> is declared and never written.
\<close>

definition l2Message ::
  "externals \<Rightarrow> inboxMultiplexer \<Rightarrow> bytes \<Rightarrow> u64 \<Rightarrow> u64 \<Rightarrow> u64 \<Rightarrow> bool \<Rightarrow> MessageWithMetadata"
  where
  "l2Message x r segment segmentNum timestamp blockNumber endOfMessage =
     (let blockNumberHash = copy_bytes zeroHash (U256Bytes blockNumber);
          timestampHash = zeroHash;
          blockNumberHash = copy_bytes blockNumberHash (U256Bytes timestamp);
          requestId = zeroHash;
          requestId =
            (if length segment < 2 \<or> segment ! 1 \<noteq> L2MessageKind_SignedTx x
             then put_at 24 (PutUint64 segmentNum)
                    (put_at 16 (PutUint64 (GetSequencerInboxPosition (backend r)))
                       (requestId[0 := 0x40]))
             else requestId)
      in \<lparr>Message = Some \<lparr>Header = \<lparr>Kind = L1MessageType_L2Message x,
                                      Sender = SequencerAddress,
                                      BlockNumber = blockNumberHash,
                                      Timestamp = timestampHash,
                                      RequestId = requestId,
                                      GasPriceL1 = zeroHash\<rparr>,
                           L2msg = tl segment\<rparr>,
          MustEndBlock = endOfMessage,
          DelayedMessagesRead = delayedMessagesRead r\<rparr>)"

text \<open>
  Lines 191-275: the choice of the output from the loop's final \<open>segmentNum\<close> and the clamped
  counters. The result is Go's pair of a message pointer and an error, with the
  multiplexer as \<open>Peek\<close> leaves it.
\<close>

definition selectOutput ::
  "externals \<Rightarrow> inboxMultiplexer \<Rightarrow> sequencerMessage \<Rightarrow> u64 \<Rightarrow> u64 \<Rightarrow> u64
     \<Rightarrow> (MessageWithMetadata option \<times> error option) \<times> inboxMultiplexer" where
  "selectOutput x r seqMsg segmentNum timestamp blockNumber =
     (if segmentNum \<ge> len64 (segments seqMsg) then
        (if delayedMessagesRead r < afterDelayedMessages seqMsg then
           (let data = ReadDelayedInbox (backend r) (delayedMessagesRead r);
                parsed = ParseIncomingL1Message x data;
                endOfMessage = (delayedMessagesRead r + 1 \<ge> afterDelayedMessages seqMsg)
            in ((Some \<lparr>Message = fst parsed, MustEndBlock = endOfMessage,
                        DelayedMessagesRead = delayedMessagesRead r + 1\<rparr>, snd parsed),
                r\<lparr>advanceAction :=
                    (if endOfMessage then AdvanceMessage else AdvanceDelayedMessage)\<rparr>))
         else ((None, Some (EndOfSequencerMessage (length (segments seqMsg)))),
               r\<lparr>advanceAction := AdvanceMessage\<rparr>))
      else
        (let endOfMessage = (segmentNum + 1 \<ge> len64 (segments seqMsg));
             r1 = (if endOfMessage then r\<lparr>advanceAction := AdvanceMessage\<rparr>
                   else r\<lparr>advanceAction := AdvanceSegment, advanceSegmentTo := segmentNum + 1\<rparr>);
             segment = segments seqMsg ! unat segmentNum
         in if length segment = 0 then ((None, Some EmptySegment), r1)
            else if hd segment = segmentKindL2Message then
              ((Some (l2Message x r1 segment segmentNum timestamp blockNumber endOfMessage), None),
               r1)
            else if hd segment = segmentKindDelayedMessages then
              (case rlp_uint (tl segment) of
                 Inl err \<Rightarrow> ((None, Some (RlpError err)), r1)
               | Inr reading \<Rightarrow>
                   (let newRead = delayedMessagesRead r1 + reading
                    in if newRead \<le> delayedMessagesRead r1
                          \<or> newRead > afterDelayedMessages seqMsg
                       then ((None, Some BadDelayedCount), r1)
                       else
                         (let endOfSegment = (delayedMessagesRead r1 + 1 \<ge> newRead);
                              r2 = (if endOfSegment then r1
                                    else r1\<lparr>advanceAction := AdvanceDelayedMessage\<rparr>);
                              data = ReadDelayedInbox (backend r2) (delayedMessagesRead r2);
                              parsed = ParseIncomingL1Message x data
                          in ((Some \<lparr>Message = fst parsed, MustEndBlock = endOfSegment,
                                      DelayedMessagesRead = delayedMessagesRead r2 + 1\<rparr>,
                               snd parsed), r2))))
            else ((None, Some (UnknownSegmentKind (hd segment))), r1)))"

text \<open>
  \<open>Peek\<close>: \<open>None\<close> when the loop over the leading segments does not end, \<open>Some (Inl p)\<close> for
  a panic, else the returned pair and the multiplexer after the call.
\<close>

definition Peek ::
  "externals \<Rightarrow> inboxMultiplexer
     \<Rightarrow> (panic + ((MessageWithMetadata option \<times> error option) \<times> inboxMultiplexer)) option"
  where
  "Peek x r =
     (case loadSequencerMessage x r of
        Inl p \<Rightarrow> Some (Inl p)
      | Inr (seqMsg, r1) \<Rightarrow>
          (case skipTimingSegments (segments seqMsg) (GetPositionWithinMessage (backend r1)) 0 0 of
             None \<Rightarrow> None
           | Some (segmentNum, timestamp, blockNumber) \<Rightarrow>
               Some (Inr (selectOutput x r1 seqMsg segmentNum
                            (clampTo timestamp (minTimestamp seqMsg) (maxTimestamp seqMsg))
                            (clampTo blockNumber (minL1Block seqMsg) (maxL1Block seqMsg))))))"

text \<open>Lines 285-300 of \<open>Advance\<close>: the recorded action is applied and then cleared.\<close>

definition applyAdvance :: "inboxMultiplexer \<Rightarrow> panic + inboxMultiplexer" where
  "applyAdvance r =
     (case (case advanceAction r of
              AdvanceDelayedMessage \<Rightarrow> Inr (r\<lparr>delayedMessagesRead := delayedMessagesRead r + 1\<rparr>)
            | AdvanceSegment \<Rightarrow>
                if advanceSegmentTo r \<le> GetPositionWithinMessage (backend r)
                then Inl AdvanceTargetNotAhead
                else Inr (r\<lparr>backend := SetPositionWithinMessage (backend r) (advanceSegmentTo r)\<rparr>)
            | AdvanceMessage \<Rightarrow>
                Inr (r\<lparr>backend := AdvanceSequencerInbox (backend r),
                       sequencerMessageCache := None,
                       sequencerMessageCachePosition := 0\<rparr>)
            | AdvanceUnknown \<Rightarrow> Inl UnknownAdvanceAction) of
        Inl p \<Rightarrow> Inl p
      | Inr r' \<Rightarrow> Inr (r'\<lparr>advanceAction := AdvanceUnknown, advanceSegmentTo := 0\<rparr>))"

definition Advance :: "externals \<Rightarrow> inboxMultiplexer \<Rightarrow> (panic + inboxMultiplexer) option" where
  "Advance x r =
     (if advanceAction r = AdvanceUnknown then
        (case Peek x r of
           None \<Rightarrow> None
         | Some (Inl p) \<Rightarrow> Some (Inl p)
         | Some (Inr (res, r1)) \<Rightarrow>
             if advanceAction r1 = AdvanceUnknown then Some (Inl FailedToGetAdvanceAction)
             else Some (applyAdvance r1))
      else Some (applyAdvance r))"

text \<open>The method \<open>DelayedMessagesRead()\<close> of the multiplexer.\<close>

definition DelayedMessagesRead_of :: "inboxMultiplexer \<Rightarrow> u64" where
  "DelayedMessagesRead_of r = delayedMessagesRead r"

section \<open>Properties of the arithmetic helpers\<close>

lemma Len_nat_upper: "n < 2 ^ k \<Longrightarrow> Len_nat n \<le> k"
proof (induction k arbitrary: n)
  case 0
  then show ?case by (subst Len_nat.simps) simp
next
  case (Suc k)
  show ?case
  proof (cases "n = 0")
    case True
    then show ?thesis by (subst Len_nat.simps) simp
  next
    case False
    from Suc.prems have "n div 2 < 2 ^ k" by simp
    then have "Len_nat (n div 2) \<le> k" by (rule Suc.IH)
    with False show ?thesis by (subst Len_nat.simps) simp
  qed
qed

lemma Len_nat_lower: "2 ^ k \<le> n \<Longrightarrow> k < Len_nat n"
proof (induction k arbitrary: n)
  case 0
  then have "n \<noteq> 0" by simp
  then show ?case by (subst Len_nat.simps) simp
next
  case (Suc k)
  have "(0 :: nat) < 2 ^ Suc k" by simp
  with Suc.prems have nz: "n \<noteq> 0" by linarith
  from Suc.prems have "2 ^ k \<le> n div 2" by simp
  then have "k < Len_nat (n div 2)" by (rule Suc.IH)
  with nz show ?case by (subst Len_nat.simps) simp
qed

lemma Len64_top:
  assumes "(2 :: u64) ^ 63 \<le> x"
  shows "Len64 x = 64"
proof -
  from assms have "(2 :: nat) ^ 63 \<le> unat x"
    by (simp add: word_le_nat_alt)
  then have lo: "63 < Len_nat (unat x)"
    by (rule Len_nat_lower)
  have "unat x < 2 ^ 64"
    using unsigned_less [of x] by simp
  then have "Len_nat (unat x) \<le> 64"
    by (rule Len_nat_upper)
  with lo show ?thesis
    by (simp add: Len64_def)
qed

lemma NextPowerOf2_top: "(2 :: u64) ^ 63 \<le> x \<Longrightarrow> NextPowerOf2 x = 0"
  by (simp add: Log2ceil_def NextPowerOf2_def LeadingZeros64_def Len64_top)

text \<open>
  Claim C10. At the edges of the bit helpers: \<open>Log2ceil 0 = 0\<close> and \<open>NextPowerOf2 0 = 1\<close>;
  for every \<open>x\<close> of at least \<open>2 ^ 63\<close>, \<open>Log2ceil x = 64\<close> and \<open>NextPowerOf2 x = 0\<close>, because
  the shift by 64 gives zero, so the result is not greater than the input.
\<close>

theorem bit_helper_edges:
  "Log2ceil 0 = 0 \<and> NextPowerOf2 0 = 1 \<and>
   ((2 :: u64) ^ 63 \<le> x \<longrightarrow>
      Log2ceil x = 64 \<and> NextPowerOf2 x = 0 \<and> \<not> x < NextPowerOf2 x)"
proof -
  have z: "Len_nat 0 = 0"
    by (subst Len_nat.simps) simp
  have a: "Log2ceil 0 = 0"
    by (simp add: Log2ceil_def LeadingZeros64_def Len64_def z)
  have b: "NextPowerOf2 0 = 1"
    by (simp add: NextPowerOf2_def a)
  have c: "Log2ceil x = 64 \<and> NextPowerOf2 x = 0 \<and> \<not> x < NextPowerOf2 x"
    if "(2 :: u64) ^ 63 \<le> x"
    using that
    by (simp add: NextPowerOf2_top) (simp add: Log2ceil_def LeadingZeros64_def Len64_top)
  from a b c show ?thesis by blast
qed

theorem bit_helper_edges_witness:
  "(2 :: u64) ^ 63 \<le> 0x8000000000000000 \<and> Log2ceil 0x8000000000000000 = 64
    \<and> NextPowerOf2 0x8000000000000000 = 0 \<and> Log2ceil 0 = 0 \<and> NextPowerOf2 0 = 1"
  using bit_helper_edges [of "0x8000000000000000"] by simp

text \<open>
  Claim C7. \<open>SaturatingSub\<close> negates the subtrahend with the wrapping minus of \<open>int64\<close>
  and does not clamp it: the negation of \<open>MinInt64\<close> is \<open>MinInt64\<close> again, and
  \<open>SaturatingSub 0 MinInt64\<close> is \<open>MinInt64\<close>, where the difference of the integers,
  \<open>2 ^ 63\<close>, clamps to \<open>MaxInt64\<close>.
\<close>

theorem SaturatingSub_MinInt64:
  "SaturatingSub 0 MinInt64 = MinInt64 \<and> SaturatingSub 0 MinInt64 \<noteq> MaxInt64
    \<and> sint (0 :: i64) - sint MinInt64 = 2 ^ 63 \<and> sint MaxInt64 = 2 ^ 63 - 1"
  by (simp add: SaturatingSub_def SaturatingAdd_def MinInt64_def MaxInt64_def Let_def)

lemma halve_2p63: "halve 0x8000000000000000 0x8000000000000000 = 0x8000000000000000"
  by (subst halve.simps) (simp add: SaturatingUMul_def MaxUint64_def Let_def)

lemma halve_2p63m1: "halve 0x7FFFFFFFFFFFFFFF 0x7FFFFFFFFFFFFFFF = 0x7FFFFFFFFFFFFFFF"
  by (subst halve.simps) (simp add: SaturatingUMul_def MaxUint64_def Let_def)

text \<open>
  Claim C8. At \<open>2 ^ 63\<close> and at \<open>2 ^ 63 - 1\<close> half of the saturated square, \<open>2 ^ 63 - 1\<close>,
  does not exceed the value, so the halving loop does not run and the four Newton steps
  start from the value itself: the result is \<open>2 ^ 59 + 4\<close>, and the error bound fails.
\<close>

theorem ApproxSquareRoot_top:
  "ApproxSquareRoot 0x8000000000000000 = 0x800000000000004
    \<and> \<not> sqrtErrorBound 0x8000000000000000 (ApproxSquareRoot 0x8000000000000000)
    \<and> ApproxSquareRoot 0x7FFFFFFFFFFFFFFF = 0x800000000000004
    \<and> \<not> sqrtErrorBound 0x7FFFFFFFFFFFFFFF (ApproxSquareRoot 0x7FFFFFFFFFFFFFFF)"
proof -
  have a: "ApproxSquareRoot 0x8000000000000000 = 0x800000000000004"
    by (simp add: ApproxSquareRoot_def halve_2p63 newton_step_def SaturatingUAdd_def
        MaxUint64_def Let_def)
  have b: "ApproxSquareRoot 0x7FFFFFFFFFFFFFFF = 0x800000000000004"
    by (simp add: ApproxSquareRoot_def halve_2p63m1 newton_step_def SaturatingUAdd_def
        MaxUint64_def Let_def)
  show ?thesis
    unfolding a b by (simp add: sqrtErrorBound_def)
qed

end
